theory Spec2Isabelle
  imports Main "HOL-Library.Word"
begin

unbundle bit_operations_syntax

section \<open>Machine integers, bytes and panics\<close>

text \<open>
  Go's \<open>uint32\<close> and \<open>byte\<close> are words of 32 and 8 bits. Go's \<open>uint\<close> has the width of the
  platform; it is modelled at 64 bits (amd64, arm64), where the conversion \<open>uint32(rate)\<close>
  of the sampler really truncates. A run-time panic of the Go program is a value of the
  type \<open>panic\<close>, and a function that may panic returns \<open>panic + 'a\<close>: the division by
  zero of the run-time system, the call of a \<open>nil\<close> function value, and a panic raised
  inside a function the program is given.
\<close>

type_synonym uint = "64 word"
type_synonym uint32 = "32 word"
type_synonym byte = "8 word"

datatype panic = IntegerDivideByZero | NilDereference | CalleePanic

definition MaxUint32 :: uint32 where
  "MaxUint32 = 0xFFFFFFFF"

text \<open>The conversion \<open>[]byte(s)\<close> of a string: its bytes, in order.\<close>

definition bytes :: "string \<Rightarrow> byte list" where
  "bytes s = map of_char s"

section \<open>CRC-32 with the IEEE polynomial\<close>

text \<open>
  Modelled from the spec: \<open>crc32.ChecksumIEEE\<close> belongs to Go's standard library and is not
  part of the repository. The spec asks for the CRC32 checksum with the IEEE polynomial
  over the bytes of the determinant; the definitions follow the byte-wise, table-driven
  reference algorithm (reflected polynomial \<open>0xedb88320\<close>, initial value and final
  complement of all ones), which every implementation of the library agrees with.
\<close>

definition IEEE :: uint32 where
  "IEEE = 0xedb88320"

definition crc_bit :: "uint32 \<Rightarrow> uint32 \<Rightarrow> uint32" where
  "crc_bit poly crc = (if crc AND 1 = 1 then drop_bit 1 crc XOR poly else drop_bit 1 crc)"

definition simpleTable :: "uint32 \<Rightarrow> byte \<Rightarrow> uint32" where
  "simpleTable poly i = (crc_bit poly ^^ 8) (ucast i)"

text \<open>The loop \<open>for _, v := range p\<close> of \<open>simpleUpdate\<close>, on the running value.\<close>

fun simpleUpdate_loop :: "(byte \<Rightarrow> uint32) \<Rightarrow> uint32 \<Rightarrow> byte list \<Rightarrow> uint32" where
  "simpleUpdate_loop tab crc [] = crc"
| "simpleUpdate_loop tab crc (v # p) =
     simpleUpdate_loop tab (tab (ucast crc XOR v) XOR drop_bit 8 crc) p"

definition simpleUpdate :: "uint32 \<Rightarrow> (byte \<Rightarrow> uint32) \<Rightarrow> byte list \<Rightarrow> uint32" where
  "simpleUpdate crc tab p = NOT (simpleUpdate_loop tab (NOT crc) p)"

definition ChecksumIEEE :: "byte list \<Rightarrow> uint32" where
  "ChecksumIEEE data = simpleUpdate 0 (simpleTable IEEE) data"

section \<open>The read-only span the sampler consumes\<close>

text \<open>
  The values a fields mapping holds (\<open>map[string]any\<close>): what \<open>attribute.Value.AsInterface\<close>
  yields for an attribute, and the string of the span's name. A float is carried as
  its 64 bits, since the sampler never computes with it.
\<close>

datatype any =
    AnyBool bool
  | AnyInt64 "64 word"
  | AnyFloat64 "64 word"
  | AnyString string
  | AnyBoolSlice "bool list"
  | AnyInt64Slice "64 word list"
  | AnyFloat64Slice "64 word list"
  | AnyStringSlice "string list"
  | AnyUnknown

text \<open>
  An attribute is a pair of its key and of the value \<open>attr.Value.AsInterface()\<close> gives.
  \<open>Attributes\<close> is a sequence: the keys need not be distinct. \<open>SpanID\<close> is the identifier of
  \<open>p.SpanContext().SpanID()\<close>, eight bytes, held as a 64-bit word whose most significant
  byte is the first byte of the identifier.
\<close>

record ReadOnlySpan =
  Attributes :: "(string \<times> any) list"
  Name :: string
  SpanID :: "64 word"

text \<open>
  Modelled from the spec: \<open>SpanID.String\<close> belongs to the OpenTelemetry library and is not
  part of the repository. It renders the identifier as text: the sixteen lower-case
  hexadecimal digits of its eight bytes, first byte first.
\<close>

definition hexdigit :: "nat \<Rightarrow> char" where
  "hexdigit n = ''0123456789abcdef'' ! (n mod 16)"

definition SpanID_String :: "64 word \<Rightarrow> string" where
  "SpanID_String w = map (\<lambda>i. hexdigit (unat (drop_bit (4 * i) w AND 15))) (rev [0..<16])"

section \<open>The deterministic sampler\<close>

text \<open>
  The key function is a Go function value; in the record it is a total function of the
  fields mapping, which is the configuration the spec describes, and the rate table
  \<open>map[string]uint\<close> is a partial map. The call of a key function that is \<open>nil\<close> or that
  panics is modelled by \<open>shouldSample_go\<close> below.
\<close>

record deterministicSampler =
  sampleKeyFunc :: "(string \<rightharpoonup> any) \<Rightarrow> string"
  sampleRates :: "string \<rightharpoonup> uint"

text \<open>The local \<open>threshold\<close> of \<open>shouldKeep\<close>: the division panics on a zero divisor.\<close>

definition threshold :: "uint \<Rightarrow> panic + uint32" where
  "threshold rate =
     (if (ucast rate :: uint32) = 0 then Inl IntegerDivideByZero
      else Inr (MaxUint32 div ucast rate))"

definition shouldKeep :: "string \<Rightarrow> uint \<Rightarrow> panic + bool" where
  "shouldKeep determinant rate =
     (if rate = 1 then Inr True
      else case threshold rate of
             Inl e \<Rightarrow> Inl e
           | Inr t \<Rightarrow> Inr (ChecksumIEEE (bytes determinant) < t))"

text \<open>The loop of \<open>shouldSample\<close> over the attributes, and the store of the name after it.\<close>

definition fields_map :: "ReadOnlySpan \<Rightarrow> (string \<rightharpoonup> any)" where
  "fields_map p = (foldl (\<lambda>m (k, v). m(k \<mapsto> v)) Map.empty (Attributes p))
                (''name'' \<mapsto> AnyString (Name p))"

definition shouldSample :: "deterministicSampler \<Rightarrow> ReadOnlySpan \<Rightarrow> panic + (bool \<times> uint)" where
  "shouldSample s p =
     (let key = sampleKeyFunc s (fields_map p) in
      case sampleRates s key of
        None \<Rightarrow> Inr (True, 1)
      | Some rate \<Rightarrow>
          (case shouldKeep (SpanID_String (SpanID p)) rate of
             Inl e \<Rightarrow> Inl e
           | Inr keep \<Rightarrow> Inr (keep, rate)))"

text \<open>
  The field \<open>sampleKeyFunc\<close> as Go holds it: a function value, which is \<open>nil\<close> (the zero
  value of the struct) or a function, and a function may panic instead of returning a
  key. The call \<open>s.sampleKeyFunc(fields)\<close> of a \<open>nil\<close> value panics; a panic of the function
  ends \<open>shouldSample\<close> before the lookup. \<open>shouldSample_go\<close> is \<open>shouldSample\<close> on the two
  fields of such a struct.
\<close>

type_synonym keyFunc = "((string \<rightharpoonup> any) \<Rightarrow> panic + string) option"

definition callKeyFunc :: "keyFunc \<Rightarrow> (string \<rightharpoonup> any) \<Rightarrow> panic + string" where
  "callKeyFunc f m = (case f of None \<Rightarrow> Inl NilDereference | Some g \<Rightarrow> g m)"

definition shouldSample_go ::
  "keyFunc \<Rightarrow> (string \<rightharpoonup> uint) \<Rightarrow> ReadOnlySpan \<Rightarrow> panic + (bool \<times> uint)" where
  "shouldSample_go f rates p =
     (case callKeyFunc f (fields_map p) of
        Inl e \<Rightarrow> Inl e
      | Inr key \<Rightarrow>
          (case rates key of
             None \<Rightarrow> Inr (True, 1)
           | Some rate \<Rightarrow>
               (case shouldKeep (SpanID_String (SpanID p)) rate of
                  Inl e \<Rightarrow> Inl e
                | Inr keep \<Rightarrow> Inr (keep, rate))))"

section \<open>The sampler on an explicit store\<close>

text \<open>
  A Go map is a reference: the struct of the sampler holds the address of its rate table,
  and \<open>fields := map[string]any{}\<close> allocates a new map, which the loop then writes.
  For the question of what a call may change, the maps live in a store, a list of
  objects addressed by position; a \<open>nil\<close> map is the reference \<open>None\<close>, which reads as
  an empty map. The receiver of \<open>shouldSample\<close> is passed by value, and the key function is
  a function value, so the store is all the state a call can reach.
\<close>

type_synonym addr = nat

datatype object =
    mapStringAny "string \<rightharpoonup> any"
  | mapStringUint "string \<rightharpoonup> uint"

type_synonym store = "object list"

record samplerRef =
  keyFuncRef :: "(string \<rightharpoonup> any) \<Rightarrow> string"
  ratesRef :: "addr option"

definition makeMap :: "store \<Rightarrow> addr \<times> store" where
  "makeMap h = (length h, h @ [mapStringAny Map.empty])"

definition mapAssign :: "store \<Rightarrow> addr \<Rightarrow> string \<Rightarrow> any \<Rightarrow> store" where
  "mapAssign h a k v =
     (if a < length h
      then (case h ! a of
              mapStringAny m \<Rightarrow> h[a := mapStringAny (m(k \<mapsto> v))]
            | mapStringUint t \<Rightarrow> h)
      else h)"

definition readFields :: "store \<Rightarrow> addr \<Rightarrow> (string \<rightharpoonup> any)" where
  "readFields h a =
     (if a < length h
      then (case h ! a of mapStringAny m \<Rightarrow> m | mapStringUint t \<Rightarrow> Map.empty)
      else Map.empty)"

definition readRates :: "store \<Rightarrow> addr option \<Rightarrow> (string \<rightharpoonup> uint)" where
  "readRates h r =
     (case r of
        None \<Rightarrow> Map.empty
      | Some a \<Rightarrow>
          (if a < length h
           then (case h ! a of mapStringUint t \<Rightarrow> t | mapStringAny m \<Rightarrow> Map.empty)
           else Map.empty))"

fun assignAttributes :: "store \<Rightarrow> addr \<Rightarrow> (string \<times> any) list \<Rightarrow> store" where
  "assignAttributes h a [] = h"
| "assignAttributes h a ((k, v) # attrs) = assignAttributes (mapAssign h a k v) a attrs"

definition shouldSample_store ::
  "samplerRef \<Rightarrow> ReadOnlySpan \<Rightarrow> store \<Rightarrow> (panic + (bool \<times> uint)) \<times> store" where
  "shouldSample_store s p h =
     (let (a, h1) = makeMap h;
          h2 = assignAttributes h1 a (Attributes p);
          h3 = mapAssign h2 a ''name'' (AnyString (Name p));
          key = keyFuncRef s (readFields h3 a)
      in case readRates h3 (ratesRef s) key of
           None \<Rightarrow> (Inr (True, 1), h3)
         | Some rate \<Rightarrow>
             (case shouldKeep (SpanID_String (SpanID p)) rate of
                Inl e \<Rightarrow> (Inl e, h3)
              | Inr keep \<Rightarrow> (Inr (keep, rate), h3)))"

text \<open>
  A sequence of calls, one per span, each on the store the call before left; a panic
  ends the sequence, as it ends the goroutine.
\<close>

fun shouldSample_calls ::
  "samplerRef \<Rightarrow> ReadOnlySpan list \<Rightarrow> store \<Rightarrow> (panic + (bool \<times> uint) list) \<times> store" where
  "shouldSample_calls s [] h = (Inr [], h)"
| "shouldSample_calls s (p # ps) h =
     (case shouldSample_store s p h of
        (Inl e, h') \<Rightarrow> (Inl e, h')
      | (Inr d, h') \<Rightarrow>
          (case shouldSample_calls s ps h' of
             (Inl e, h'') \<Rightarrow> (Inl e, h'')
           | (Inr ds, h'') \<Rightarrow> (Inr (d # ds), h'')))"

text \<open>
  The configuration a sampler has in a store: its key function and the table its
  reference reads as. And the decisions of a sequence of calls on that configuration,
  without a store.
\<close>

definition configuration :: "samplerRef \<Rightarrow> store \<Rightarrow> deterministicSampler" where
  "configuration s h = \<lparr>sampleKeyFunc = keyFuncRef s, sampleRates = readRates h (ratesRef s)\<rparr>"

fun shouldSample_each ::
  "deterministicSampler \<Rightarrow> ReadOnlySpan list \<Rightarrow> panic + (bool \<times> uint) list" where
  "shouldSample_each s [] = Inr []"
| "shouldSample_each s (p # ps) =
     (case shouldSample s p of
        Inl e \<Rightarrow> Inl e
      | Inr d \<Rightarrow>
          (case shouldSample_each s ps of
             Inl e \<Rightarrow> Inl e
           | Inr ds \<Rightarrow> Inr (d # ds)))"

section \<open>The tracing facade\<close>

text \<open>
  A \<open>context.Context\<close> is the background context or a context that adds one value under
  one key to its parent; \<open>Value\<close> returns the nearest value of a key. The key
  \<open>providerKey{}\<close> is the package's own; every other key is \<open>otherKey\<close>. A value is a
  \<open>Provider\<close> interface value, which may be \<open>nil\<close>, or something else.

  \<open>Provider\<close> and \<open>Span\<close> are interfaces. Their implementations in this package are
  \<open>noopProvider\<close> and \<open>noopSpan\<close>; any other implementation is a \<open>backend\<close> of some type
  \<open>'b\<close>, with spans of some type \<open>'sp\<close>, whose methods act on a telemetry state \<open>'w\<close> and
  are given by a record of functions.
\<close>

datatype ctxKey = providerKey | otherKey string

datatype 'b Provider = noopProvider | backend 'b

datatype 'sp Span = noopSpan | backendSpan 'sp

datatype 'b ctxValue = providerValue "'b Provider option" | otherValue any

datatype 'b Context = Background | WithValue "'b Context" ctxKey "'b ctxValue"

record Pair =
  Key :: string
  Value :: any

definition Field :: "string \<Rightarrow> any \<Rightarrow> Pair" where
  "Field key val = \<lparr>Key = key, Value = val\<rparr>"

record ('b, 'sp, 'w) Backend =
  backend_AddGlobalField :: "'b \<Rightarrow> string \<Rightarrow> any \<Rightarrow> 'w \<Rightarrow> 'w"
  backend_StartSpan :: "'b \<Rightarrow> 'b Context \<Rightarrow> string \<Rightarrow> 'w \<Rightarrow> ('b Context \<times> 'sp Span) \<times> 'w"
  backend_AddField :: "'b \<Rightarrow> 'b Context \<Rightarrow> string \<Rightarrow> any \<Rightarrow> 'w \<Rightarrow> 'w"
  backend_AddFieldToTrace :: "'b \<Rightarrow> 'b Context \<Rightarrow> string \<Rightarrow> any \<Rightarrow> 'w \<Rightarrow> 'w"
  backend_Log :: "'b \<Rightarrow> 'b Context \<Rightarrow> string \<Rightarrow> Pair list \<Rightarrow> 'w \<Rightarrow> 'w"
  backend_Close :: "'b \<Rightarrow> 'b Context \<Rightarrow> 'w \<Rightarrow> 'w"
  backendSpan_AddField :: "'sp \<Rightarrow> string \<Rightarrow> any \<Rightarrow> 'w \<Rightarrow> 'w"
  backendSpan_End :: "'sp \<Rightarrow> 'w \<Rightarrow> 'w"

fun Context_Value :: "'b Context \<Rightarrow> ctxKey \<Rightarrow> 'b ctxValue option" where
  "Context_Value Background k = None"
| "Context_Value (WithValue parent key val) k =
     (if k = key then Some val else Context_Value parent k)"

definition WithProvider :: "'b Context \<Rightarrow> 'b Provider option \<Rightarrow> 'b Context" where
  "WithProvider ctx p = WithValue ctx providerKey (providerValue p)"

definition defaultProvider :: "'b Provider" where
  "defaultProvider = noopProvider"

definition FromContext :: "'b Context \<Rightarrow> 'b Provider" where
  "FromContext ctx =
     (case Context_Value ctx providerKey of
        Some (providerValue (Some provider)) \<Rightarrow> provider
      | _ \<Rightarrow> defaultProvider)"

text \<open>The methods of the two interfaces, dispatched on the implementation.\<close>

definition Provider_StartSpan ::
  "('b, 'sp, 'w) Backend \<Rightarrow> 'b Provider \<Rightarrow> 'b Context \<Rightarrow> string \<Rightarrow> 'w
     \<Rightarrow> ('b Context \<times> 'sp Span) \<times> 'w" where
  "Provider_StartSpan B c ctx name w =
     (case c of
        noopProvider \<Rightarrow> ((ctx, noopSpan), w)
      | backend b \<Rightarrow> backend_StartSpan B b ctx name w)"

definition Provider_AddField ::
  "('b, 'sp, 'w) Backend \<Rightarrow> 'b Provider \<Rightarrow> 'b Context \<Rightarrow> string \<Rightarrow> any \<Rightarrow> 'w \<Rightarrow> 'w" where
  "Provider_AddField B c ctx key val w =
     (case c of noopProvider \<Rightarrow> w | backend b \<Rightarrow> backend_AddField B b ctx key val w)"

definition Provider_AddFieldToTrace ::
  "('b, 'sp, 'w) Backend \<Rightarrow> 'b Provider \<Rightarrow> 'b Context \<Rightarrow> string \<Rightarrow> any \<Rightarrow> 'w \<Rightarrow> 'w" where
  "Provider_AddFieldToTrace B c ctx key val w =
     (case c of noopProvider \<Rightarrow> w | backend b \<Rightarrow> backend_AddFieldToTrace B b ctx key val w)"

definition Provider_Log ::
  "('b, 'sp, 'w) Backend \<Rightarrow> 'b Provider \<Rightarrow> 'b Context \<Rightarrow> string \<Rightarrow> Pair list \<Rightarrow> 'w \<Rightarrow> 'w" where
  "Provider_Log B c ctx name fs w =
     (case c of noopProvider \<Rightarrow> w | backend b \<Rightarrow> backend_Log B b ctx name fs w)"

definition Span_AddField :: "('b, 'sp, 'w) Backend \<Rightarrow> 'sp Span \<Rightarrow> string \<Rightarrow> any \<Rightarrow> 'w \<Rightarrow> 'w" where
  "Span_AddField B s key val w =
     (case s of noopSpan \<Rightarrow> w | backendSpan sp \<Rightarrow> backendSpan_AddField B sp key val w)"

definition Span_End :: "('b, 'sp, 'w) Backend \<Rightarrow> 'sp Span \<Rightarrow> 'w \<Rightarrow> 'w" where
  "Span_End B s w = (case s of noopSpan \<Rightarrow> w | backendSpan sp \<Rightarrow> backendSpan_End B sp w)"

text \<open>The operations of the package.\<close>

definition StartSpan ::
  "('b, 'sp, 'w) Backend \<Rightarrow> 'b Context \<Rightarrow> string \<Rightarrow> 'w \<Rightarrow> ('b Context \<times> 'sp Span) \<times> 'w" where
  "StartSpan B ctx name w = Provider_StartSpan B (FromContext ctx) ctx name w"

definition AddField ::
  "('b, 'sp, 'w) Backend \<Rightarrow> 'b Context \<Rightarrow> string \<Rightarrow> any \<Rightarrow> 'w \<Rightarrow> 'w" where
  "AddField B ctx key val w = Provider_AddField B (FromContext ctx) ctx key val w"

definition AddFieldToTrace ::
  "('b, 'sp, 'w) Backend \<Rightarrow> 'b Context \<Rightarrow> string \<Rightarrow> any \<Rightarrow> 'w \<Rightarrow> 'w" where
  "AddFieldToTrace B ctx key val w = Provider_AddFieldToTrace B (FromContext ctx) ctx key val w"

text \<open>
  A context in which \<open>WithProvider\<close> has stored a provider: somewhere in its chain, a
  provider that is not \<open>nil\<close> under the package's key.
\<close>

fun providerStored :: "'b Context \<Rightarrow> bool" where
  "providerStored Background = False"
| "providerStored (WithValue parent key val) =
     ((key = providerKey \<and> (case val of providerValue (Some p) \<Rightarrow> True | _ \<Rightarrow> False))
      \<or> providerStored parent)"

section \<open>Example configurations\<close>

text \<open>
  The configuration of the spec's first scenario: the key function returns
  \<open>fields["name"]\<close> (the empty string when it is no string), and the table has one key.
\<close>

definition keyByName :: "(string \<rightharpoonup> any) \<Rightarrow> string" where
  "keyByName f = (case f ''name'' of Some (AnyString n) \<Rightarrow> n | _ \<Rightarrow> [])"

definition checkoutSampler :: "uint \<Rightarrow> deterministicSampler" where
  "checkoutSampler r = \<lparr>sampleKeyFunc = keyByName, sampleRates = [''checkout'' \<mapsto> r]\<rparr>"

definition spanNamed :: "string \<Rightarrow> 64 word \<Rightarrow> ReadOnlySpan" where
  "spanNamed n sid =
     \<lparr>Attributes = [(''http.status_code'', AnyInt64 200)], Name = n, SpanID = sid\<rparr>"

text \<open>
  A backend whose every method counts one more call in the telemetry state, and a context
  that carries a request identifier and, above it, a \<open>nil\<close> provider.
\<close>

definition countingBackend :: "(nat, nat, nat) Backend" where
  "countingBackend =
     \<lparr>backend_AddGlobalField = (\<lambda>b k v w. Suc w),
      backend_StartSpan = (\<lambda>b c n w. ((c, backendSpan b), Suc w)),
      backend_AddField = (\<lambda>b c k v w. Suc w),
      backend_AddFieldToTrace = (\<lambda>b c k v w. Suc w),
      backend_Log = (\<lambda>b c n fs w. Suc w),
      backend_Close = (\<lambda>b c w. Suc w),
      backendSpan_AddField = (\<lambda>sp k v w. Suc w),
      backendSpan_End = (\<lambda>sp w. Suc w)\<rparr>"

definition requestContext :: "nat Context" where
  "requestContext =
     WithProvider (WithValue Background (otherKey ''request-id'') (otherValue (AnyString ''r1'')))
       None"

section \<open>Evaluation of the checksum\<close>

text \<open>
  Rules that let the simplifier run the checksum on a concrete byte sequence: the eight
  steps of a table entry written out, and the complement as an exclusive or.
\<close>

lemma funpow_8: "(f ^^ 8) x = f (f (f (f (f (f (f (f x)))))))"
  by (simp add: eval_nat_numeral)

lemma complement_uint32: "NOT (c::uint32) = c XOR 0xFFFFFFFF"
proof -
  have "(0xFFFFFFFF::uint32) = - 1" by simp
  then show ?thesis by (simp only: bit.xor_one_right)
qed

lemmas checksum_eval =
  ChecksumIEEE_def simpleUpdate_def simpleTable_def crc_bit_def IEEE_def bytes_def
  funpow_8 complement_uint32

text \<open>The check value of CRC-32/IEEE, the checksum of the nine digits.\<close>

lemma ChecksumIEEE_check_value: "ChecksumIEEE (bytes ''123456789'') = 0xCBF43926"
  by (simp add: checksum_eval)

lemma ChecksumIEEE_empty: "ChecksumIEEE (bytes []) = 0"
  by (simp add: checksum_eval)

section \<open>The threshold and the decision of \<open>shouldKeep\<close>\<close>

lemma MaxUint32_unat: "unat MaxUint32 = 2 ^ 32 - 1"
  by (simp add: MaxUint32_def)

lemma unat_ucast_rate: "unat (ucast (r::uint) :: uint32) = unat r mod 2 ^ 32"
  by (simp add: unsigned_ucast_eq take_bit_eq_mod)

lemma ucast_rate_zero: "((ucast (r::uint) :: uint32) = 0) = (unat r mod 2 ^ 32 = 0)"
  by (metis unat_ucast_rate unat_eq_0)

lemma threshold_panics: "unat rate mod 2 ^ 32 = 0 \<Longrightarrow> threshold rate = Inl IntegerDivideByZero"
  by (simp add: threshold_def ucast_rate_zero)

lemma threshold_value:
  assumes "unat rate mod 2 ^ 32 \<noteq> 0"
  shows "\<exists>t. threshold rate = Inr t \<and> unat t = (2 ^ 32 - 1) div (unat rate mod 2 ^ 32)"
  using assms
  by (simp add: threshold_def ucast_rate_zero unat_div MaxUint32_unat unat_ucast_rate)

lemma shouldKeep_value:
  assumes "rate \<noteq> 1" and "unat rate mod 2 ^ 32 \<noteq> 0"
  shows "shouldKeep d rate =
           Inr (unat (ChecksumIEEE (bytes d)) < (2 ^ 32 - 1) div (unat rate mod 2 ^ 32))"
proof -
  obtain t where t: "threshold rate = Inr t" "unat t = (2 ^ 32 - 1) div (unat rate mod 2 ^ 32)"
    using threshold_value [OF assms(2)] by blast
  show ?thesis
    using assms(1) t by (simp add: shouldKeep_def word_less_nat_alt)
qed

lemma shouldKeep_panics:
  assumes "rate \<noteq> 1" and "unat rate mod 2 ^ 32 = 0"
  shows "shouldKeep d rate = Inl IntegerDivideByZero"
  using assms by (simp add: shouldKeep_def threshold_panics)

section \<open>Checksums of some span identifiers\<close>

lemma SpanID_String_02b9: "SpanID_String 0x00f067aa0ba902b9 = ''00f067aa0ba902b9''"
  by code_simp

lemma SpanID_String_064c: "SpanID_String 0xca1780000000064c = ''ca1780000000064c''"
  by code_simp



lemma checksum_02b9: "ChecksumIEEE (bytes (SpanID_String 0x00f067aa0ba902b9)) = 74314190"
  unfolding SpanID_String_02b9 by (simp add: checksum_eval)

lemma checksum_064c: "ChecksumIEEE (bytes (SpanID_String 0xca1780000000064c)) = 0"
  unfolding SpanID_String_064c by (simp add: checksum_eval)



section \<open>The sample key of the example configuration\<close>

lemma fields_map_name: "fields_map p ''name'' = Some (AnyString (Name p))"
  by (simp add: fields_map_def)

lemma checkout_key:
  "sampleKeyFunc (checkoutSampler r) (fields_map (spanNamed n sid)) = n"
  by (simp add: checkoutSampler_def keyByName_def fields_map_name spanNamed_def)

lemma checkout_rate:
  "sampleRates (checkoutSampler r)
     (sampleKeyFunc (checkoutSampler r) (fields_map (spanNamed ''checkout'' sid))) = Some r"
  unfolding checkout_key by (simp add: checkoutSampler_def)

lemma checkout_absent:
  "sampleRates (checkoutSampler r)
     (sampleKeyFunc (checkoutSampler r) (fields_map (spanNamed ''login'' sid))) = None"
  unfolding checkout_key by (simp add: checkoutSampler_def)

lemma SpanID_spanNamed: "SpanID (spanNamed n sid) = sid"
  by (simp add: spanNamed_def)

section \<open>The decision of the sampler\<close>

lemma shouldSample_found:
  assumes "sampleRates s (sampleKeyFunc s (fields_map p)) = Some r"
  shows "shouldSample s p =
           (case shouldKeep (SpanID_String (SpanID p)) r of
              Inl e \<Rightarrow> Inl e
            | Inr keep \<Rightarrow> Inr (keep, r))"
  using assms by (simp add: shouldSample_def)

lemma shouldSample_value:
  assumes "sampleRates s (sampleKeyFunc s (fields_map p)) = Some r"
    and "r \<noteq> 1" and "unat r mod 2 ^ 32 \<noteq> 0"
  shows "shouldSample s p =
           Inr (unat (ChecksumIEEE (bytes (SpanID_String (SpanID p))))
                  < (2 ^ 32 - 1) div (unat r mod 2 ^ 32), r)"
  using assms by (simp add: shouldSample_found shouldKeep_value)

lemma shouldSample_panics:
  assumes "sampleRates s (sampleKeyFunc s (fields_map p)) = Some r"
    and "r \<noteq> 1" and "unat r mod 2 ^ 32 = 0"
  shows "shouldSample s p = Inl IntegerDivideByZero"
  using assms by (simp add: shouldSample_found shouldKeep_panics)

text \<open>
  C1. For a span whose sample key has a rate \<open>r\<close> in the table with \<open>2 \<le> r < 2^32\<close>, the
  decision is the pair of \<open>CRC32-IEEE(d) < floor(MaxUint32 / r)\<close> and \<open>r\<close>, where \<open>d\<close> is
  the span identifier rendered as a string.
\<close>

theorem shouldSample_rate:
  assumes "sampleRates s (sampleKeyFunc s (fields_map p)) = Some r"
    and "2 \<le> unat r" and "unat r < 2 ^ 32"
  shows "shouldSample s p =
           Inr (unat (ChecksumIEEE (bytes (SpanID_String (SpanID p)))) < unat MaxUint32 div unat r, r)"
proof -
  from assms(2) have "r \<noteq> 1" by auto
  moreover from assms(2,3) have "unat r mod 2 ^ 32 = unat r" and "unat r mod 2 ^ 32 \<noteq> 0"
    by simp_all
  ultimately show ?thesis
    using shouldSample_value [OF assms(1)] by (simp add: MaxUint32_unat)
qed

theorem shouldSample_rate_witness:
  "sampleRates (checkoutSampler 10)
     (sampleKeyFunc (checkoutSampler 10)
        (fields_map (spanNamed ''checkout'' 0x00f067aa0ba902b9))) = Some 10
   \<and> 2 \<le> unat (10::uint) \<and> unat (10::uint) < 2 ^ 32
   \<and> shouldSample (checkoutSampler 10) (spanNamed ''checkout'' 0x00f067aa0ba902b9)
       = Inr (True, 10)"
  using shouldSample_rate [OF checkout_rate, of 10 "0x00f067aa0ba902b9"]
  by (simp add: checkout_rate SpanID_spanNamed checksum_02b9 MaxUint32_unat)

text \<open>
  C2. The decision is a function of the determinant and of the rate alone: two calls
  (of any two samplers, on any two spans) that find the same rate \<open>r \<ge> 1\<close> and use the same
  determinant return the same result, which \<open>shouldKeep\<close> and \<open>r\<close> fix.
\<close>

theorem shouldSample_deterministic:
  assumes "sampleRates s (sampleKeyFunc s (fields_map p)) = Some r"
    and "sampleRates s' (sampleKeyFunc s' (fields_map p')) = Some r"
    and "1 \<le> unat r"
    and "SpanID_String (SpanID p) = d" and "SpanID_String (SpanID p') = d"
  shows "shouldSample s p = shouldSample s' p'
         \<and> shouldSample s p = (case shouldKeep d r of Inl e \<Rightarrow> Inl e | Inr keep \<Rightarrow> Inr (keep, r))"
  using assms by (simp add: shouldSample_found)

theorem shouldSample_deterministic_witness:
  "sampleRates (checkoutSampler 10)
     (sampleKeyFunc (checkoutSampler 10)
        (fields_map (spanNamed ''checkout'' 0x00f067aa0ba902b9))) = Some 10
   \<and> sampleRates \<lparr>sampleKeyFunc = (\<lambda>f. ''k''), sampleRates = [''k'' \<mapsto> 10]\<rparr>
       (sampleKeyFunc \<lparr>sampleKeyFunc = (\<lambda>f. ''k''), sampleRates = [''k'' \<mapsto> 10]\<rparr>
          (fields_map \<lparr>Attributes = [], Name = ''login'', SpanID = 0x00f067aa0ba902b9\<rparr>)) = Some 10
   \<and> 1 \<le> unat (10::uint)
   \<and> shouldSample (checkoutSampler 10) (spanNamed ''checkout'' 0x00f067aa0ba902b9)
       = shouldSample \<lparr>sampleKeyFunc = (\<lambda>f. ''k''), sampleRates = [''k'' \<mapsto> 10]\<rparr>
           \<lparr>Attributes = [], Name = ''login'', SpanID = 0x00f067aa0ba902b9\<rparr>"
  using shouldSample_deterministic [OF checkout_rate, of
      "\<lparr>sampleKeyFunc = (\<lambda>f. ''k''), sampleRates = [''k'' \<mapsto> 10]\<rparr>"
      "\<lparr>Attributes = [], Name = ''login'', SpanID = 0x00f067aa0ba902b9\<rparr>"
      10 "0x00f067aa0ba902b9" "SpanID_String 0x00f067aa0ba902b9"]
  by (simp add: checkout_rate SpanID_spanNamed)

text \<open>
  C3. When the sample key is absent from the table, or maps to the rate 1, the decision
  is \<open>(true, 1)\<close>, whatever the identifier of the span.
\<close>

theorem shouldSample_rate_one:
  assumes "sampleRates s (sampleKeyFunc s (fields_map p)) = None
           \<or> sampleRates s (sampleKeyFunc s (fields_map p)) = Some 1"
  shows "shouldSample s p = Inr (True, 1)"
  using assms by (auto simp add: shouldSample_def shouldKeep_def)

theorem shouldSample_rate_one_witness:
  "sampleRates (checkoutSampler 10)
     (sampleKeyFunc (checkoutSampler 10)
        (fields_map (spanNamed ''login'' 0x00f067aa0ba902b9))) = None
   \<and> shouldSample (checkoutSampler 10) (spanNamed ''login'' 0x00f067aa0ba902b9) = Inr (True, 1)
   \<and> sampleRates (checkoutSampler 1)
     (sampleKeyFunc (checkoutSampler 1)
        (fields_map (spanNamed ''checkout'' 0xcf03800000000c21))) = Some 1
   \<and> shouldSample (checkoutSampler 1) (spanNamed ''checkout'' 0xcf03800000000c21) = Inr (True, 1)"
  using shouldSample_rate_one [of "checkoutSampler 10" "spanNamed ''login'' 0x00f067aa0ba902b9"]
    shouldSample_rate_one [of "checkoutSampler 1" "spanNamed ''checkout'' 0xcf03800000000c21"]
  by (simp add: checkout_rate checkout_absent)

text \<open>
  C4, as the claim states it, fails: with the rate 0 in the table, the division
  \<open>MaxUint32 / uint32(rate)\<close> panics and \<open>shouldSample\<close> returns no decision.
\<close>

theorem shouldSample_rate_zero_panics:
  "shouldSample (checkoutSampler 0) (spanNamed ''checkout'' 0x00f067aa0ba902b9)
     = Inl IntegerDivideByZero"
  by (rule shouldSample_panics [OF checkout_rate]) simp_all

lemma shouldSample_go_total:
  "shouldSample_go (Some (\<lambda>m. Inr (sampleKeyFunc s m))) (sampleRates s) p = shouldSample s p"
  by (simp add: shouldSample_go_def callKeyFunc_def shouldSample_def)

lemma shouldSample_go_no_key:
  "callKeyFunc f (fields_map p) = Inl e \<Longrightarrow> shouldSample_go f rates p = Inl e"
  by (simp add: shouldSample_go_def)

lemma shouldSample_go_nil: "shouldSample_go None rates p = Inl NilDereference"
  by (simp add: shouldSample_go_def callKeyFunc_def)

lemma shouldSample_go_key:
  assumes "callKeyFunc f (fields_map p) = Inr key"
  shows "shouldSample_go f rates p =
           (case rates key of
              None \<Rightarrow> Inr (True, 1)
            | Some rate \<Rightarrow>
                (case shouldKeep (SpanID_String (SpanID p)) rate of
                   Inl e \<Rightarrow> Inl e
                 | Inr keep \<Rightarrow> Inr (keep, rate)))"
  using assms by (simp add: shouldSample_go_def)

text \<open>
  C4, amended. For a span whose accessors return, \<open>shouldSample\<close> returns a decision exactly
  when its key function is set (not \<open>nil\<close>) and returns a key, and the rate the table has
  for that key, if it has one other than 1, is not zero in its low 32 bits: so, with such
  a key function, for every span whose key is absent, and for every rate from 1 to
  \<open>2^32 - 1\<close>. It panics otherwise: on a rate of 0 (or another multiple of \<open>2^32\<close>) in the
  division of the threshold, and on a key function that is \<open>nil\<close> or panics in the call,
  before the lookup.
\<close>

theorem shouldSample_decides_iff:
  "(\<exists>keep rateUsed. shouldSample_go f rates p = Inr (keep, rateUsed)) =
   (\<exists>key. callKeyFunc f (fields_map p) = Inr key
          \<and> (\<forall>r. rates key = Some r \<longrightarrow> r = 1 \<or> unat r mod 2 ^ 32 \<noteq> 0))"
proof (cases "callKeyFunc f (fields_map p)")
  case (Inl e)
  then show ?thesis by (simp add: shouldSample_go_no_key)
next
  case (Inr key)
  note go = shouldSample_go_key [OF Inr, of rates]
  show ?thesis
  proof (cases "rates key")
    case None
    with Inr go show ?thesis by auto
  next
    case (Some r)
    show ?thesis
    proof (cases "r = 1")
      case True
      with Inr Some go show ?thesis by (auto simp add: shouldKeep_def)
    next
      case r: False
      show ?thesis
      proof (cases "unat r mod 2 ^ 32 = 0")
        case True
        with Inr Some go r show ?thesis by (auto simp add: shouldKeep_panics)
      next
        case False
        with Inr Some go r show ?thesis by (auto simp add: shouldKeep_value)
      qed
    qed
  qed
qed

theorem shouldSample_decides_iff_witness:
  "callKeyFunc (Some (\<lambda>m. Inr (keyByName m)))
       (fields_map (spanNamed ''checkout'' 0x00f067aa0ba902b9)) = Inr ''checkout''
   \<and> [''checkout'' \<mapsto> (10::uint)] ''checkout'' = Some 10
   \<and> unat (10::uint) mod 2 ^ 32 \<noteq> 0
   \<and> (\<exists>keep rateUsed.
         shouldSample_go (Some (\<lambda>m. Inr (keyByName m))) [''checkout'' \<mapsto> 10]
           (spanNamed ''checkout'' 0x00f067aa0ba902b9) = Inr (keep, rateUsed))
   \<and> shouldSample_go None [''checkout'' \<mapsto> 10] (spanNamed ''checkout'' 0x00f067aa0ba902b9)
       = Inl NilDereference
   \<and> shouldSample_go (Some (\<lambda>m. Inl CalleePanic)) [''checkout'' \<mapsto> 10]
         (spanNamed ''checkout'' 0x00f067aa0ba902b9) = Inl CalleePanic"
proof -
  have key: "callKeyFunc (Some (\<lambda>m. Inr (keyByName m)))
       (fields_map (spanNamed ''checkout'' 0x00f067aa0ba902b9)) = Inr ''checkout''"
    by (simp add: callKeyFunc_def keyByName_def fields_map_name spanNamed_def)
  have panics: "shouldSample_go (Some (\<lambda>m. Inl CalleePanic)) [''checkout'' \<mapsto> 10]
         (spanNamed ''checkout'' 0x00f067aa0ba902b9) = Inl CalleePanic"
    by (simp add: shouldSample_go_def callKeyFunc_def)
  show ?thesis
    using shouldSample_decides_iff [of "Some (\<lambda>m. Inr (keyByName m))" "[''checkout'' \<mapsto> 10]"
        "spanNamed ''checkout'' 0x00f067aa0ba902b9"]
    by (simp add: key panics shouldSample_go_nil)
qed

text \<open>
  C5, as the claim states it, fails: at the rate \<open>MaxUint32\<close> the threshold is 1, not 0,
  and the span whose identifier has the checksum 0 is kept.
\<close>

theorem shouldSample_MaxUint32_keeps:
  "threshold 0xFFFFFFFF = Inr 1
   \<and> shouldSample (checkoutSampler 0xFFFFFFFF) (spanNamed ''checkout'' 0xca1780000000064c)
       = Inr (True, 0xFFFFFFFF)"
proof -
  have "shouldSample (checkoutSampler 0xFFFFFFFF) (spanNamed ''checkout'' 0xca1780000000064c)
          = Inr (True, 0xFFFFFFFF)"
    using shouldSample_value [OF checkout_rate, of "0xFFFFFFFF" "0xca1780000000064c"]
    by (simp add: SpanID_spanNamed checksum_064c)
  moreover have "threshold 0xFFFFFFFF = Inr 1"
    by (simp add: threshold_def MaxUint32_def)
  ultimately show ?thesis by simp
qed

text \<open>
  C5, amended. For a rate \<open>r \<ge> MaxUint32\<close> only the low 32 bits of \<open>r\<close> enter the threshold:
  when they are not zero, the span is kept exactly when the checksum of its determinant is
  below \<open>floor(MaxUint32 / (r mod 2^32))\<close>. At \<open>r = MaxUint32\<close> that threshold is 1, so the
  span is kept exactly when the checksum is 0, and dropped for every other determinant.
\<close>

theorem shouldSample_huge_rate:
  assumes "sampleRates s (sampleKeyFunc s (fields_map p)) = Some r"
    and "unat MaxUint32 \<le> unat r" and "unat r mod 2 ^ 32 \<noteq> 0"
  shows "shouldSample s p =
           Inr (unat (ChecksumIEEE (bytes (SpanID_String (SpanID p))))
                  < unat MaxUint32 div (unat r mod 2 ^ 32), r)
         \<and> (unat r = unat MaxUint32 \<longrightarrow>
              shouldSample s p = Inr (ChecksumIEEE (bytes (SpanID_String (SpanID p))) = 0, r))"
proof -
  from assms(2) have r1: "r \<noteq> 1" by (auto simp add: MaxUint32_unat)
  have val: "shouldSample s p =
           Inr (unat (ChecksumIEEE (bytes (SpanID_String (SpanID p))))
                  < unat MaxUint32 div (unat r mod 2 ^ 32), r)"
    using shouldSample_value [OF assms(1) r1 assms(3)] by (simp add: MaxUint32_unat)
  have "shouldSample s p = Inr (ChecksumIEEE (bytes (SpanID_String (SpanID p))) = 0, r)"
    if "unat r = unat MaxUint32"
  proof -
    from that have "unat MaxUint32 div (unat r mod 2 ^ 32) = 1"
      by (simp add: MaxUint32_unat)
    with val show ?thesis by (simp add: unat_eq_0)
  qed
  with val show ?thesis by simp
qed

theorem shouldSample_huge_rate_witness:
  "sampleRates (checkoutSampler 0x100000002)
     (sampleKeyFunc (checkoutSampler 0x100000002)
        (fields_map (spanNamed ''checkout'' 0x00f067aa0ba902b9))) = Some 0x100000002
   \<and> unat MaxUint32 \<le> unat (0x100000002::uint) \<and> unat (0x100000002::uint) mod 2 ^ 32 \<noteq> 0
   \<and> shouldSample (checkoutSampler 0x100000002) (spanNamed ''checkout'' 0x00f067aa0ba902b9)
       = Inr (True, 0x100000002)
   \<and> sampleRates (checkoutSampler 0xFFFFFFFF)
     (sampleKeyFunc (checkoutSampler 0xFFFFFFFF)
        (fields_map (spanNamed ''checkout'' 0x00f067aa0ba902b9))) = Some 0xFFFFFFFF
   \<and> unat (0xFFFFFFFF::uint) = unat MaxUint32 \<and> unat (0xFFFFFFFF::uint) mod 2 ^ 32 \<noteq> 0
   \<and> shouldSample (checkoutSampler 0xFFFFFFFF) (spanNamed ''checkout'' 0x00f067aa0ba902b9)
       = Inr (False, 0xFFFFFFFF)"
  using shouldSample_huge_rate [OF checkout_rate, of "0x100000002" "0x00f067aa0ba902b9"]
    shouldSample_huge_rate [OF checkout_rate, of "0xFFFFFFFF" "0x00f067aa0ba902b9"]
  by (simp add: checkout_rate SpanID_spanNamed checksum_02b9 MaxUint32_unat)




section \<open>The fields mapping\<close>

lemma assign_loop:
  "foldl (\<lambda>m (k, v). m(k \<mapsto> v)) m attrs = m ++ map_of (rev attrs)"
proof (induction attrs arbitrary: m)
  case Nil
  show ?case by simp
next
  case (Cons a attrs)
  obtain k v where a: "a = (k, v)" by (cases a)
  have "foldl (\<lambda>m (k, v). m(k \<mapsto> v)) m (a # attrs)
          = foldl (\<lambda>m (k, v). m(k \<mapsto> v)) (m(k \<mapsto> v)) attrs"
    by (simp only: a foldl_Cons prod.case)
  also have "\<dots> = m(k \<mapsto> v) ++ map_of (rev attrs)"
    by (rule Cons.IH)
  also have "\<dots> = m ++ map_of (rev (a # attrs))"
    unfolding a by (rule ext) (simp add: map_add_def split: option.splits)
  finally show ?case .
qed

lemma fields_map_eq:
  "fields_map p = (map_of (rev (Attributes p)))(''name'' \<mapsto> AnyString (Name p))"
  by (simp add: fields_map_def assign_loop)

lemma map_of_distinct_entry:
  assumes "distinct (map fst attrs)" and "(k, v) \<in> set attrs"
  shows "map_of (rev attrs) k = Some v"
proof -
  from assms(1) have "distinct (map fst (rev attrs))"
    by (simp add: rev_map [symmetric])
  moreover from assms(2) have "(k, v) \<in> set (rev attrs)" by simp
  ultimately show ?thesis by (rule map_of_is_SomeI)
qed

lemma map_of_overwrite:
  "map_of (map (\<lambda>(k, v). (k, if k = n then g v else v)) xs) k =
     (if k = n then map_option g (map_of xs k) else map_of xs k)"
  by (induction xs) auto

text \<open>
  C7, as the claim states it, fails: an attribute whose key is \<open>name\<close> has no entry of its
  own in the mapping, since the name of the span is stored under that key after the loop.
\<close>

theorem attribute_name_has_no_entry:
  "(''name'', AnyString ''GET /help'')
     \<in> set (Attributes \<lparr>Attributes = [(''name'', AnyString ''GET /help'')],
                          Name = ''checkout'', SpanID = 0x00f067aa0ba902b9\<rparr>)
   \<and> fields_map \<lparr>Attributes = [(''name'', AnyString ''GET /help'')],
                  Name = ''checkout'', SpanID = 0x00f067aa0ba902b9\<rparr> ''name''
       \<noteq> Some (AnyString ''GET /help'')"
  by (simp add: fields_map_def)

text \<open>
  C7, amended. The sample key of the lookup is \<open>sampleKeyFunc\<close> applied to a mapping that
  holds the name of the span under the key \<open>name\<close> and, under every other key of an
  attribute, the value of the last attribute with that key, and nothing else. When the
  keys of the attributes are distinct, every attribute whose key is not \<open>name\<close> has its
  entry, from its key to its value.
\<close>

theorem sample_key_fields:
  "shouldSample s p =
     (case sampleRates s
             (sampleKeyFunc s ((map_of (rev (Attributes p)))(''name'' \<mapsto> AnyString (Name p)))) of
        None \<Rightarrow> Inr (True, 1)
      | Some rate \<Rightarrow>
          (case shouldKeep (SpanID_String (SpanID p)) rate of
             Inl e \<Rightarrow> Inl e
           | Inr keep \<Rightarrow> Inr (keep, rate)))
   \<and> fields_map p = (map_of (rev (Attributes p)))(''name'' \<mapsto> AnyString (Name p))
   \<and> dom (fields_map p) = insert ''name'' (fst ` set (Attributes p))
   \<and> (distinct (map fst (Attributes p)) \<longrightarrow>
        (\<forall>(k, v) \<in> set (Attributes p). k \<noteq> ''name'' \<longrightarrow> fields_map p k = Some v))"
proof -
  have key: "shouldSample s p =
     (case sampleRates s
             (sampleKeyFunc s ((map_of (rev (Attributes p)))(''name'' \<mapsto> AnyString (Name p)))) of
        None \<Rightarrow> Inr (True, 1)
      | Some rate \<Rightarrow>
          (case shouldKeep (SpanID_String (SpanID p)) rate of
             Inl e \<Rightarrow> Inl e
           | Inr keep \<Rightarrow> Inr (keep, rate)))"
    by (simp add: shouldSample_def fields_map_eq)
  have doms: "dom (fields_map p) = insert ''name'' (fst ` set (Attributes p))"
    by (simp add: fields_map_eq dom_map_of_conv_image_fst)
  have entry: "fields_map p k = Some v"
    if "distinct (map fst (Attributes p))" and "(k, v) \<in> set (Attributes p)" and "k \<noteq> ''name''"
    for k v
    using that by (simp add: fields_map_eq map_of_distinct_entry)
  have entries: "distinct (map fst (Attributes p)) \<longrightarrow>
        (\<forall>(k, v) \<in> set (Attributes p). k \<noteq> ''name'' \<longrightarrow> fields_map p k = Some v)"
    using entry by auto
  from key fields_map_eq [of p] doms entries show ?thesis
    by (intro conjI)
qed

theorem sample_key_fields_witness:
  "distinct (map fst (Attributes (spanNamed ''checkout'' 0x00f067aa0ba902b9)))
   \<and> (''http.status_code'', AnyInt64 200) \<in> set (Attributes (spanNamed ''checkout'' 0x00f067aa0ba902b9))
   \<and> ''http.status_code'' \<noteq> ''name''
   \<and> fields_map (spanNamed ''checkout'' 0x00f067aa0ba902b9) ''http.status_code''
       = Some (AnyInt64 200)
   \<and> fields_map (spanNamed ''checkout'' 0x00f067aa0ba902b9) ''name''
       = Some (AnyString ''checkout'')
   \<and> dom (fields_map (spanNamed ''checkout'' 0x00f067aa0ba902b9))
       = {''name'', ''http.status_code''}"
  using sample_key_fields [of "checkoutSampler 10" "spanNamed ''checkout'' 0x00f067aa0ba902b9"]
  by (simp add: spanNamed_def)

text \<open>
  C10. When an attribute of a span has the key \<open>name\<close>, the name of the span replaces its
  value in the fields mapping: the mapping holds the name of the span under \<open>name\<close>, and
  the mapping, hence the key function's argument and the decision, is the same whatever
  values the attributes with the key \<open>name\<close> carry.
\<close>

theorem name_attribute_overwritten:
  assumes "(''name'', v) \<in> set (Attributes p)"
  shows "fields_map p ''name'' = Some (AnyString (Name p))
         \<and> fields_map (p\<lparr>Attributes :=
               map (\<lambda>(k, v). (k, if k = ''name'' then g v else v)) (Attributes p)\<rparr>)
             = fields_map p
         \<and> shouldSample s (p\<lparr>Attributes :=
               map (\<lambda>(k, v). (k, if k = ''name'' then g v else v)) (Attributes p)\<rparr>)
             = shouldSample s p"
proof -
  let ?p' = "p\<lparr>Attributes := map (\<lambda>(k, v). (k, if k = ''name'' then g v else v)) (Attributes p)\<rparr>"
  have "fields_map ?p' k = fields_map p k" for k
    by (simp add: fields_map_eq rev_map map_of_overwrite)
  then have same: "fields_map ?p' = fields_map p" by (rule ext)
  then have "shouldSample s ?p' = shouldSample s p"
    by (simp add: shouldSample_def split: option.splits)
  with same show ?thesis by (simp add: fields_map_name)
qed

theorem name_attribute_overwritten_witness:
  "(''name'', AnyString ''GET /help'')
     \<in> set (Attributes \<lparr>Attributes = [(''name'', AnyString ''GET /help'')],
                          Name = ''checkout'', SpanID = 0x00f067aa0ba902b9\<rparr>)
   \<and> fields_map \<lparr>Attributes = [(''name'', AnyString ''GET /help'')],
                  Name = ''checkout'', SpanID = 0x00f067aa0ba902b9\<rparr> ''name''
       = Some (AnyString ''checkout'')
   \<and> keyByName (fields_map \<lparr>Attributes = [(''name'', AnyString ''GET /help'')],
                  Name = ''checkout'', SpanID = 0x00f067aa0ba902b9\<rparr>) = ''checkout''"
  using name_attribute_overwritten [of "AnyString ''GET /help''"
      "\<lparr>Attributes = [(''name'', AnyString ''GET /help'')],
         Name = ''checkout'', SpanID = 0x00f067aa0ba902b9\<rparr>"]
  by (simp add: keyByName_def)

section \<open>The facade without a provider\<close>

lemma Context_Value_not_stored:
  "\<not> providerStored ctx \<Longrightarrow>
     (case Context_Value ctx providerKey of Some (providerValue (Some p)) \<Rightarrow> False | _ \<Rightarrow> True)"
  by (induction ctx) (auto split: option.splits ctxValue.splits)

lemma FromContext_not_stored:
  "\<not> providerStored ctx \<Longrightarrow> FromContext ctx = defaultProvider"
  using Context_Value_not_stored [of ctx]
  by (auto simp add: FromContext_def split: option.splits ctxValue.splits)

text \<open>
  C9. In a context in which no provider was stored with \<open>WithProvider\<close>, \<open>FromContext\<close>
  returns the no-op provider of the package, and the operations of the facade have no
  effect, whatever the backends do: \<open>StartSpan\<close> returns the context it was given and a
  span whose \<open>AddField\<close> and \<open>End\<close> leave the telemetry state as it is, and \<open>AddField\<close>,
  \<open>AddFieldToTrace\<close> and the provider's \<open>Log\<close> leave it as it is.
\<close>

theorem facade_without_provider:
  fixes ctx :: "'b Context" and B :: "('b, 'sp, 'w) Backend"
  assumes "\<not> providerStored ctx"
  shows "FromContext ctx = defaultProvider
         \<and> defaultProvider = (noopProvider :: 'b Provider)
         \<and> StartSpan B ctx name w = ((ctx, noopSpan), w)
         \<and> Span_AddField B (snd (fst (StartSpan B ctx name w))) key val w' = w'
         \<and> Span_End B (snd (fst (StartSpan B ctx name w))) w' = w'
         \<and> AddField B ctx key val w = w
         \<and> AddFieldToTrace B ctx key val w = w
         \<and> Provider_Log B (FromContext ctx) ctx name fs w = w"
proof -
  have p: "FromContext ctx = noopProvider"
    using assms by (simp add: FromContext_not_stored defaultProvider_def)
  have s: "StartSpan B ctx name w = ((ctx, noopSpan), w)"
    by (simp add: StartSpan_def Provider_StartSpan_def p)
  show ?thesis
    by (simp add: s p defaultProvider_def Span_AddField_def Span_End_def AddField_def
        Provider_AddField_def AddFieldToTrace_def Provider_AddFieldToTrace_def Provider_Log_def)
qed

theorem facade_without_provider_witness:
  "\<not> providerStored requestContext
   \<and> FromContext requestContext = noopProvider
   \<and> StartSpan countingBackend requestContext ''GET /help'' 0
       = ((requestContext, noopSpan), 0)
   \<and> AddField countingBackend requestContext ''result'' (AnyString ''success'') 0 = 0"
proof -
  have "\<not> providerStored requestContext"
    by (simp add: requestContext_def WithProvider_def)
  then show ?thesis
    using facade_without_provider [where ctx = requestContext and B = countingBackend
        and name = "''GET /help''" and w = 0 and key = "''result''"
        and val = "AnyString ''success''"]
    by (simp add: defaultProvider_def)
qed

section \<open>What a call changes in the store\<close>

lemma mapAssign_new:
  "mapAssign (h @ [mapStringAny m]) (length h) k v = h @ [mapStringAny (m(k \<mapsto> v))]"
  by (simp add: mapAssign_def)

lemma assignAttributes_new:
  "assignAttributes (h @ [mapStringAny m]) (length h) attrs =
     h @ [mapStringAny (foldl (\<lambda>m (k, v). m(k \<mapsto> v)) m attrs)]"
proof (induction attrs arbitrary: m)
  case Nil
  show ?case by simp
next
  case (Cons a attrs)
  obtain k v where a: "a = (k, v)" by (cases a)
  show ?case
    unfolding a by (simp only: assignAttributes.simps mapAssign_new Cons.IH foldl_Cons prod.case)
qed

lemma readFields_new: "readFields (h @ [mapStringAny m]) (length h) = m"
  by (simp add: readFields_def)

lemma readRates_new: "readRates (h @ [mapStringAny m]) r = readRates h r"
  by (cases r) (auto simp add: readRates_def nth_append split: object.splits)

lemma shouldSample_store_eq:
  "shouldSample_store s p h =
     (shouldSample (configuration s h) p, h @ [mapStringAny (fields_map p)])"
proof -
  let ?h3 = "h @ [mapStringAny (fields_map p)]"
  have h3: "mapAssign (assignAttributes (h @ [mapStringAny Map.empty]) (length h) (Attributes p))
              (length h) ''name'' (AnyString (Name p)) = ?h3"
    by (simp only: assignAttributes_new mapAssign_new fields_map_def)
  show ?thesis
    by (simp add: shouldSample_store_def makeMap_def h3 readFields_new readRates_new
        shouldSample_def configuration_def split: option.splits sum.splits)
qed

lemma shouldSample_calls_eq:
  "\<exists>h'. shouldSample_calls s ps h = (shouldSample_each (configuration s h) ps, h @ h')
        \<and> configuration s (h @ h') = configuration s h"
proof (induction ps arbitrary: h)
  case Nil
  have "shouldSample_calls s [] h = (shouldSample_each (configuration s h) [], h @ [])
        \<and> configuration s (h @ []) = configuration s h"
    by simp
  then show ?case by blast
next
  case (Cons p ps)
  let ?new = "[mapStringAny (fields_map p)]"
  have c: "configuration s (h @ ?new) = configuration s h"
    by (simp add: configuration_def readRates_new)
  obtain h' where
    h': "shouldSample_calls s ps (h @ ?new) = (shouldSample_each (configuration s h) ps, (h @ ?new) @ h')"
    and c': "configuration s ((h @ ?new) @ h') = configuration s h"
    using Cons.IH [of "h @ ?new"] c by auto
  show ?case
  proof (cases "shouldSample (configuration s h) p")
    case (Inl e)
    then have "shouldSample_calls s (p # ps) h
                 = (shouldSample_each (configuration s h) (p # ps), h @ ?new)"
      by (simp add: shouldSample_store_eq)
    with c show ?thesis by blast
  next
    case (Inr d)
    then have "shouldSample_calls s (p # ps) h
                 = (shouldSample_each (configuration s h) (p # ps), h @ (?new @ h'))"
      by (simp add: shouldSample_store_eq h' split: sum.splits)
    moreover from c' have "configuration s (h @ (?new @ h')) = configuration s h"
      by simp
    ultimately show ?thesis by blast
  qed
qed

text \<open>
  C8. A call of \<open>shouldSample\<close> leaves the configuration of the sampler as it is: the store
  after the call is the store before it with one new object, the fields mapping of the
  span, so every object that was there before is unchanged, the rate table reads as it
  did, and the decision is that of the configuration before the call. After any number of calls
  the old objects and the configuration are still the same, and the decisions are
  those the first configuration gives for every span.
\<close>

theorem shouldSample_keeps_configuration:
  "snd (shouldSample_store s p h) = h @ [mapStringAny (fields_map p)]
   \<and> take (length h) (snd (shouldSample_store s p h)) = h
   \<and> configuration s (snd (shouldSample_store s p h)) = configuration s h
   \<and> fst (shouldSample_store s p h) = shouldSample (configuration s h) p
   \<and> take (length h) (snd (shouldSample_calls s ps h)) = h
   \<and> configuration s (snd (shouldSample_calls s ps h)) = configuration s h
   \<and> fst (shouldSample_calls s ps h) = shouldSample_each (configuration s h) ps"
proof -
  obtain h' where calls: "shouldSample_calls s ps h = (shouldSample_each (configuration s h) ps, h @ h')"
    and same: "configuration s (h @ h') = configuration s h"
    using shouldSample_calls_eq by blast
  have one: "configuration s (h @ [mapStringAny (fields_map p)]) = configuration s h"
    by (simp add: configuration_def readRates_new)
  show ?thesis
    by (simp add: shouldSample_store_eq calls same one)
qed

theorem shouldSample_keeps_configuration_witness:
  "shouldSample_store \<lparr>keyFuncRef = keyByName, ratesRef = Some 0\<rparr>
     (spanNamed ''checkout'' 0x00f067aa0ba902b9) [mapStringUint [''checkout'' \<mapsto> 10]]
   = (Inr (True, 10),
      [mapStringUint [''checkout'' \<mapsto> 10],
       mapStringAny (fields_map (spanNamed ''checkout'' 0x00f067aa0ba902b9))])"
proof -
  have c: "configuration \<lparr>keyFuncRef = keyByName, ratesRef = Some 0\<rparr>
             [mapStringUint [''checkout'' \<mapsto> 10]] = checkoutSampler 10"
    by (simp add: configuration_def readRates_def checkoutSampler_def)
  have d: "shouldSample (checkoutSampler 10) (spanNamed ''checkout'' 0x00f067aa0ba902b9)
             = Inr (True, 10)"
    using shouldSample_value [OF checkout_rate, of 10 "0x00f067aa0ba902b9"]
    by (simp add: SpanID_spanNamed checksum_02b9)
  show ?thesis
    using shouldSample_keeps_configuration [of "\<lparr>keyFuncRef = keyByName, ratesRef = Some 0\<rparr>"
        "spanNamed ''checkout'' 0x00f067aa0ba902b9" "[mapStringUint [''checkout'' \<mapsto> 10]]" "[]"]
    by (simp add: c d prod_eq_iff)
qed

end
